theory Spec2Isabelle
  imports Main "HOL-Library.Word" "HOL-Library.Multiset" "HOL-Library.Finite_Map"
begin

section \<open>Common data\<close>

text \<open>
  Go byte slices are lists of 8-bit words; a nil slice and an empty slice are both the
  empty list, which is how \<^verbatim>\<open>bytes.Equal\<close> and \<^verbatim>\<open>len\<close> see them.
\<close>

type_synonym bytes = "8 word list"

text \<open>
  Go \<^verbatim>\<open>error\<close> values. The sentinels are the package-level variables of the
  sources; every other error (\<^verbatim>\<open>errors.New\<close>, \<^verbatim>\<open>fmt.Errorf\<close>, an error
  handed back by a collaborator) is \<open>Err\<close> with its message.
\<close>

datatype error =
    errInvalidStateHash
  | ErrBlockAlreadyAccepted
  | ErrBlockNotFound
  | ErrStateNotFound
  | Err string

text \<open>A call either returns or panics (a Go \<^verbatim>\<open>panic\<close>, a nil dereference).\<close>

datatype 'a outcome = Panicked string | Returned 'a

section \<open>Stall detector (pkg/p2p/peer/stall/stall.go)\<close>

text \<open>
  \<^verbatim>\<open>commands.Cmd\<close> is a string type declared outside the sources; the commands the
  detector names are constructors, any other command is \<open>OtherCmd\<close>.
\<close>

datatype Cmd =
    GetHeaders | Headers | GetAddr | Addr | GetData | Block | Tx | NotFound
  | GetBlocks | Inv | Version | VerAck | OtherCmd string

text \<open>
  \<^verbatim>\<open>time.Time\<close> and \<^verbatim>\<open>time.Duration\<close> are integers (nanoseconds). The map
  \<^verbatim>\<open>responses\<close> is a partial function from commands to deadlines.
\<close>

record Detector =
  responseTime :: int
  tickInterval :: int
  responses :: "Cmd \<rightharpoonup> int"

fun addMessage :: "Cmd \<Rightarrow> Cmd list" where
  "addMessage GetHeaders = [Headers]"
| "addMessage GetAddr = [Addr]"
| "addMessage GetData = [Block, Tx, NotFound]"
| "addMessage GetBlocks = [Inv]"
| "addMessage Version = [VerAck]"
| "addMessage _ = []"

fun removeMessage :: "Cmd \<Rightarrow> Cmd list" where
  "removeMessage Block = [Block, Tx, NotFound]"
| "removeMessage Tx = [Block, Tx, NotFound]"
| "removeMessage cmd = [cmd]"

text \<open>
  \<^verbatim>\<open>AddMessage\<close> reads the clock once per expected reply: \<open>clock i\<close> is the
  reading of \<^verbatim>\<open>time.Now()\<close> in the \<open>i\<close>-th iteration of the loop.
\<close>

fun addLoop :: "int \<Rightarrow> (nat \<Rightarrow> int) \<Rightarrow> nat \<Rightarrow> Cmd list \<Rightarrow> (Cmd \<rightharpoonup> int) \<Rightarrow> (Cmd \<rightharpoonup> int)" where
  "addLoop rt clock i [] m = m"
| "addLoop rt clock i (cmd # cmds) m = addLoop rt clock (Suc i) cmds (m(cmd \<mapsto> clock i + rt))"

definition AddMessage :: "Detector \<Rightarrow> (nat \<Rightarrow> int) \<Rightarrow> Cmd \<Rightarrow> Detector" where
  "AddMessage d clock cmd =
     d\<lparr>responses := addLoop (responseTime d) clock 0 (addMessage cmd) (responses d)\<rparr>"

fun deleteLoop :: "Cmd list \<Rightarrow> (Cmd \<rightharpoonup> int) \<Rightarrow> (Cmd \<rightharpoonup> int)" where
  "deleteLoop [] m = m"
| "deleteLoop (cmd # cmds) m = deleteLoop cmds (m(cmd := None))"

definition RemoveMessage :: "Detector \<Rightarrow> Cmd \<Rightarrow> Detector" where
  "RemoveMessage d cmd = d\<lparr>responses := deleteLoop (removeMessage cmd) (responses d)\<rparr>"

definition NewDetector :: "int \<Rightarrow> int \<Rightarrow> Detector" where
  "NewDetector rTime tickerInterval =
     \<lparr>responseTime = rTime, tickInterval = tickerInterval, responses = Map.empty\<rparr>"

text \<open>A clock that reads 100 at every call, for the concrete runs below.\<close>

definition clock100 :: "nat \<Rightarrow> int" where
  "clock100 i = 100"

section \<open>Consensus messages\<close>

text \<open>
  \<^verbatim>\<open>header.Header\<close>, the header of every consensus message: round (uint64), step
  (uint8), block hash and the sender's BLS public key.
\<close>

record header_Header =
  Round :: "64 word"
  Step :: "8 word"
  BlockHash :: bytes
  PubKeyBLS :: bytes

datatype Topic =
    topics_Score | topics_BestScore | topics_Generation | topics_Agreement
  | topics_AcceptedBlock | topics_Gossip | topics_Kadcast | topics_Inv | topics_Block

section \<open>Score selector (package selection)\<close>

text \<open>
  The \<^verbatim>\<open>Score\<close> event: the struct is declared outside the sources; the fields are the
  ones the selector reads (\<^verbatim>\<open>Score\<close>, \<^verbatim>\<open>VoteHash\<close>) and the ones the score
  message carries.
\<close>

record Score =
  Score :: bytes
  Proof :: bytes
  Z :: bytes
  BidListSubset :: bytes
  Seed :: bytes
  VoteHash :: bytes

definition emptyScore :: Score where
  "emptyScore = \<lparr>Score = [], Proof = [], Z = [], BidListSubset = [], Seed = [], VoteHash = []\<rparr>"

text \<open>
  What the selector calls and the sources do not define: the handler's methods
  (\<^verbatim>\<open>Priority\<close>, \<^verbatim>\<open>Verify\<close>, \<^verbatim>\<open>LowerThreshold\<close>) on a handler state \<open>'h\<close>,
  \<^verbatim>\<open>Score.Equal\<close> and \<^verbatim>\<open>MarshalScore\<close>. They are parameters.
\<close>

record 'h selection_env =
  Priority :: "'h \<Rightarrow> Score \<Rightarrow> Score \<Rightarrow> bool"
  Verify :: "'h \<Rightarrow> Score \<Rightarrow> error option"
  LowerThreshold :: "'h \<Rightarrow> 'h"
  Equal :: "Score \<Rightarrow> Score \<Rightarrow> bool"
  MarshalScore :: "Score \<Rightarrow> error + bytes"

text \<open>
  The calls the selector makes on its event player and its signer, in order: the model
  keeps them as a log.
\<close>

datatype selector_call =
    Pause "32 word"
  | SendWithHeader Topic bytes bytes "32 word"
  | SendAuthenticated Topic bytes bytes "32 word"

text \<open>
  \<^verbatim>\<open>bestEvent\<close> is a pointer: \<open>None\<close> is nil (the state before the first
  \<^verbatim>\<open>CollectGeneration\<close>). \<^verbatim>\<open>timeout\<close> is a \<^verbatim>\<open>time.Duration\<close>, an int64.
\<close>

record 'h Selector =
  handler :: 'h
  bestEvent :: "Score option"
  timeout :: "64 word"
  scoreID :: "32 word"
  calls :: "selector_call list"

definition ID :: "'h Selector \<Rightarrow> 32 word" where
  "ID s = scoreID s"

definition getBestEvent :: "'h Selector \<Rightarrow> Score outcome" where
  "getBestEvent s =
     (case bestEvent s of
        None \<Rightarrow> Panicked ''nil pointer dereference''
      | Some ev \<Rightarrow> Returned ev)"

definition setBestEvent :: "'h Selector \<Rightarrow> Score \<Rightarrow> 'h Selector" where
  "setBestEvent s ev = s\<lparr>bestEvent := Some ev\<rparr>"

definition repropagate :: "'h selection_env \<Rightarrow> 'h Selector \<Rightarrow> Score \<Rightarrow> error option \<times> 'h Selector" where
  "repropagate env s ev =
     (case MarshalScore env ev of
        Inl err \<Rightarrow> (Some err, s)
      | Inr buf \<Rightarrow>
          (None, s\<lparr>calls := calls s @ [SendAuthenticated topics_Score (VoteHash ev) buf (ID s)]\<rparr>))"

definition Process :: "'h selection_env \<Rightarrow> 'h Selector \<Rightarrow> Score \<Rightarrow> (error option \<times> 'h Selector) outcome" where
  "Process env s ev =
     (case getBestEvent s of
        Panicked msg \<Rightarrow> Panicked msg
      | Returned best \<Rightarrow>
          if \<not> Equal env best emptyScore \<and> Priority env (handler s) best ev
          then Returned (None, s)
          else
            (let s1 = setBestEvent s ev in
             case Verify env (handler s1) ev of
               Some err \<Rightarrow> Returned (Some err, setBestEvent s1 best)
             | None \<Rightarrow>
                 (case repropagate env s1 ev of
                    (Some err, s2) \<Rightarrow> Returned (Some err, setBestEvent s2 best)
                  | (None, s2) \<Rightarrow> Returned (None, s2))))"

definition IncreaseTimeOut :: "'h Selector \<Rightarrow> 'h Selector" where
  "IncreaseTimeOut s = s\<lparr>timeout := timeout s * 2\<rparr>"

definition publishBestEvent :: "'h selection_env \<Rightarrow> 'h Selector \<Rightarrow> (error option \<times> 'h Selector) outcome" where
  "publishBestEvent env s =
     (let s1 = s\<lparr>calls := calls s @ [Pause (scoreID s)]\<rparr> in
      case getBestEvent s1 of
        Panicked msg \<Rightarrow> Panicked msg
      | Returned best \<Rightarrow>
          (let s2 =
                 (if Equal env best emptyScore
                  then s1\<lparr>calls := calls s1 @ [SendWithHeader topics_BestScore (replicate 32 0) [] (ID s1)]\<rparr>
                  else s1\<lparr>calls := calls s1 @ [SendWithHeader topics_BestScore (VoteHash best) [] (ID s1)]\<rparr>);
               s3 = s2\<lparr>handler := LowerThreshold env (handler s2)\<rparr>
           in Returned (None, IncreaseTimeOut s3)))"

section \<open>Agreement component (package agreement)\<close>

text \<open>
  The agreement handler is declared outside the sources. Its one method used here,
  \<^verbatim>\<open>IsMember(pubKeyBLS, round, step)\<close>, is a field: whether the key sits in the
  committee sampled for that round and step.
\<close>

record agreement_handler =
  IsMember :: "bytes \<Rightarrow> 64 word \<Rightarrow> 8 word \<Rightarrow> bool"

text \<open>
  An event on the agreement topic (\<^verbatim>\<open>consensus.Event\<close>): its header and its payload.
  The accumulator, also outside the sources, is the list of the agreements handed to
  \<^verbatim>\<open>accumulator.Process\<close>, in order. \<^verbatim>\<open>Unmarshal\<close> is a parameter.
\<close>

record consensus_Event =
  Header :: header_Header
  Payload :: bytes

record 'a agreement =
  handler :: agreement_handler
  accumulator :: "'a list"
  workerAmount :: int

definition Filter :: "'a agreement \<Rightarrow> header_Header \<Rightarrow> bool" where
  "Filter a hdr = (\<not> IsMember (agreement.handler a) (PubKeyBLS hdr) (Round hdr) (Step hdr))"

definition CollectAgreementEvent ::
  "(header_Header \<Rightarrow> bytes \<Rightarrow> error + 'a) \<Rightarrow> 'a agreement \<Rightarrow> consensus_Event \<Rightarrow> error option \<times> 'a agreement" where
  "CollectAgreementEvent Unmarshal a event =
     (case Unmarshal (Header event) (Payload event) of
        Inl err \<Rightarrow> (Some err, a)
      | Inr ev \<Rightarrow> (None, a\<lparr>accumulator := accumulator a @ [ev]\<rparr>))"

text \<open>
  Modelled from the spec: \<^verbatim>\<open>consensus.NewFilteringListener(callback, filter)\<close> is not in
  the sources. Section 4.6 has the filter run first and a rejected message dropped without
  processing; a message that passes goes to the callback.
\<close>

definition FilteringListener ::
  "(header_Header \<Rightarrow> bytes \<Rightarrow> error + 'a) \<Rightarrow> 'a agreement \<Rightarrow> consensus_Event \<Rightarrow> error option \<times> 'a agreement" where
  "FilteringListener Unmarshal a event =
     (if Filter a (Header event) then (None, a)
      else CollectAgreementEvent Unmarshal a event)"

section \<open>Vote aggregator (package reduction)\<close>

text \<open>
  \<^verbatim>\<open>message.StepVotes\<close> (declared outside the sources): aggregated public key and
  signature, the committee bitset (uint64) and the step (uint8).
\<close>

record StepVotes =
  Apk :: bytes
  BitSet :: "64 word"
  Signature :: bytes
  Step :: "8 word"

definition NewStepVotes :: StepVotes where
  "NewStepVotes = \<lparr>Apk = [], BitSet = 0, Signature = [], Step = 0\<rparr>"

text \<open>
  Modelled from the spec: \<^verbatim>\<open>sortedset.Cluster\<close> is not in the sources. Section 4.3 calls
  it the signer multiset: \<^verbatim>\<open>Insert\<close> adds one occurrence of a key,
  \<^verbatim>\<open>TotalOccurrences\<close> counts occurrences with multiplicity, and its \<^verbatim>\<open>Set\<close> is the
  set of distinct keys.
\<close>

type_synonym Cluster = "bytes multiset"

definition NewCluster :: Cluster where
  "NewCluster = {#}"

definition Insert :: "Cluster \<Rightarrow> bytes \<Rightarrow> Cluster" where
  "Insert c b = add_mset b c"

definition TotalOccurrences :: "Cluster \<Rightarrow> int" where
  "TotalOccurrences c = int (size c)"

definition Cluster_Set :: "Cluster \<Rightarrow> bytes set" where
  "Cluster_Set c = set_mset c"

text \<open>
  The reduction handler (declared outside the sources): \<^verbatim>\<open>VotesFor\<close> and
  \<^verbatim>\<open>Committee\<close> are fields, as is the committee size the quorum is computed from.
  \<^verbatim>\<open>CommitteeBits\<close> is \<^verbatim>\<open>committee.Bits\<close> and \<^verbatim>\<open>StepVotesAdd\<close> is
  \<^verbatim>\<open>StepVotes.Add\<close> (BLS aggregation), both parameters.
\<close>

record reduction_Handler =
  VotesFor :: "bytes \<Rightarrow> 64 word \<Rightarrow> 8 word \<Rightarrow> int"
  Committee :: "64 word \<Rightarrow> 8 word \<Rightarrow> Cluster"
  CommitteeSize :: "64 word \<Rightarrow> nat"
  CommitteeBits :: "Cluster \<Rightarrow> bytes set \<Rightarrow> 64 word"
  StepVotesAdd :: "StepVotes \<Rightarrow> bytes \<Rightarrow> bytes \<Rightarrow> 8 word \<Rightarrow> error + StepVotes"

text \<open>
  Modelled from the spec: \<^verbatim>\<open>Handler.Quorum\<close> is not in the sources. Section 4.3 fixes
  the quorum at the ceiling of two thirds of the committee size, plus one; on integers the
  ceiling of \<open>2 * n / 3\<close> is \<open>(2 * n + 2) div 3\<close>.
\<close>

definition Quorum :: "reduction_Handler \<Rightarrow> 64 word \<Rightarrow> int" where
  "Quorum h rnd = int ((2 * CommitteeSize h rnd + 2) div 3) + 1"

record Reduction =
  State :: header_Header
  SignedHash :: bytes

record Result =
  Hash :: bytes
  SV :: StepVotes

text \<open>
  \<^verbatim>\<open>voteSets\<close> maps a block hash to its StepVotes and its cluster. The StepVotes is
  held by pointer, so the bitset written by \<^verbatim>\<open>addBitSet\<close> is also seen through the
  map entry.
\<close>

record Aggregator =
  handler :: reduction_Handler
  voteSets :: "bytes \<rightharpoonup> StepVotes \<times> Cluster"

definition NewAggregator :: "reduction_Handler \<Rightarrow> Aggregator" where
  "NewAggregator h = \<lparr>handler = h, voteSets = Map.empty\<rparr>"

fun insertLoop :: "nat \<Rightarrow> bytes \<Rightarrow> Cluster \<Rightarrow> Cluster" where
  "insertLoop 0 pk c = c"
| "insertLoop (Suc n) pk c = insertLoop n pk (Insert c pk)"

definition addBitSet :: "Aggregator \<Rightarrow> StepVotes \<Rightarrow> Cluster \<Rightarrow> 64 word \<Rightarrow> 8 word \<Rightarrow> StepVotes" where
  "addBitSet a sv cluster rnd step =
     (let committee = Committee (Aggregator.handler a) rnd step
      in sv\<lparr>BitSet := CommitteeBits (Aggregator.handler a) committee (Cluster_Set cluster)\<rparr>)"

definition CollectVote :: "Aggregator \<Rightarrow> Reduction \<Rightarrow> (Result option \<times> Aggregator) outcome" where
  "CollectVote a ev =
     (let hdr = State ev;
          hash = BlockHash hdr;
          sv = (case voteSets a hash of
                  None \<Rightarrow> (NewStepVotes, NewCluster)
                | Some found \<Rightarrow> found)
      in case StepVotesAdd (Aggregator.handler a) (fst sv) (SignedHash ev) (PubKeyBLS hdr) (header_Header.Step hdr) of
           Inl err \<Rightarrow> Panicked ''adding the vote to the cluster failed''
         | Inr stepVotes \<Rightarrow>
             (let votes = VotesFor (Aggregator.handler a) (PubKeyBLS hdr) (Round hdr) (header_Header.Step hdr);
                  cluster = insertLoop (nat votes) (PubKeyBLS hdr) (snd sv);
                  a1 = a\<lparr>voteSets := (voteSets a)(hash \<mapsto> (stepVotes, cluster))\<rparr>
              in if TotalOccurrences cluster \<ge> Quorum (Aggregator.handler a) (Round hdr)
                 then
                   (let stepVotes' = addBitSet a1 stepVotes cluster (Round hdr) (header_Header.Step hdr)
                    in Returned
                         (Some \<lparr>Hash = BlockHash hdr, SV = stepVotes'\<rparr>,
                          a1\<lparr>voteSets := (voteSets a1)(hash \<mapsto> (stepVotes', cluster))\<rparr>))
                 else Returned (None, a1)))"

text \<open>
  A sequence of votes collected one after the other by the same aggregator: the results of
  the calls in order, and the aggregator after the last.
\<close>

fun CollectVotes :: "Aggregator \<Rightarrow> Reduction list \<Rightarrow> (Result option list \<times> Aggregator) outcome" where
  "CollectVotes a [] = Returned ([], a)"
| "CollectVotes a (ev # evs) =
     (case CollectVote a ev of
        Panicked msg \<Rightarrow> Panicked msg
      | Returned (r, a1) \<Rightarrow>
          (case CollectVotes a1 evs of
             Panicked msg \<Rightarrow> Panicked msg
           | Returned (rs, a2) \<Rightarrow> Returned (r # rs, a2)))"

section \<open>Blocks and provisioners\<close>

text \<open>
  \<^verbatim>\<open>block.Block\<close>, its header and its certificate are declared outside the sources;
  the records have the fields chain.go reads and the ones section 3 of the specification
  lists. Heights are uint64, the certificate's step is uint8. The transactions
  (\<^verbatim>\<open>transactions.ContractCall\<close>, an interface) are a type parameter.
\<close>

record Certificate =
  StepOneBatchedSig :: bytes
  StepTwoBatchedSig :: bytes
  Step :: "8 word"
  StepOneCommittee :: "64 word"
  StepTwoCommittee :: "64 word"

record block_Header =
  Version :: "8 word"
  Height :: "64 word"
  Timestamp :: "64 word"
  PrevBlockHash :: bytes
  Seed :: bytes
  TxRoot :: bytes
  Certificate :: Certificate
  Hash :: bytes
  StateHash :: bytes

record 'tx Block =
  Header :: block_Header
  Txs :: "'tx list"

record Stake =
  Value :: "64 word"
  CreatedAt :: "64 word"
  Eligibility :: "64 word"

record Member =
  PublicKeyBLS :: bytes
  Stakes :: "Stake list"

record Provisioners =
  Set :: "bytes list"
  Members :: "(bytes \<times> Member) list"

section \<open>Duplicate window (dupemap.TmpMap)\<close>

text \<open>
  Modelled from the spec: \<^verbatim>\<open>dupemap.TmpMap\<close> is not in the sources, only its test
  (pkg/p2p/peer/tmpmap_test.go). Section 4.1 and the test give a collection of sets of
  payload hashes indexed by height; \<^verbatim>\<open>Has\<close> looks the hash of the payload up in the
  set of the current height, \<^verbatim>\<open>Add\<close> reports whether it was there and inserts it.
  The hash function is a parameter.
\<close>

record TmpMap =
  height :: "64 word"
  tolerance :: "64 word"
  msgSets :: "64 word \<rightharpoonup> bytes set"

definition NewTmpMap :: "64 word \<Rightarrow> TmpMap" where
  "NewTmpMap tol = \<lparr>height = 0, tolerance = tol, msgSets = Map.empty\<rparr>"

definition HasAt :: "(bytes \<Rightarrow> bytes) \<Rightarrow> TmpMap \<Rightarrow> bytes \<Rightarrow> 64 word \<Rightarrow> bool" where
  "HasAt xxhash t b h =
     (case msgSets t h of
        None \<Rightarrow> False
      | Some s \<Rightarrow> xxhash b \<in> s)"

definition Has :: "(bytes \<Rightarrow> bytes) \<Rightarrow> TmpMap \<Rightarrow> bytes \<Rightarrow> bool" where
  "Has xxhash t b = HasAt xxhash t b (height t)"

definition Add :: "(bytes \<Rightarrow> bytes) \<Rightarrow> TmpMap \<Rightarrow> bytes \<Rightarrow> bool \<times> TmpMap" where
  "Add xxhash t b =
     (if Has xxhash t b then (True, t)
      else
        (let s = (case msgSets t (height t) of None \<Rightarrow> {} | Some s \<Rightarrow> s)
         in (False, t\<lparr>msgSets := (msgSets t)(height t \<mapsto> insert (xxhash b) s)\<rparr>)))"

section \<open>Chain acceptor (pkg/core/chain/chain.go)\<close>

text \<open>
  The executor is a remote service: the chain only sees its answers. The model logs every
  call made to it (field \<open>rusk\<close> of the chain), and an answer may depend on the calls
  made before, which is how the service's own state shows.
\<close>

datatype 'tx executor_call =
    GetStateRootCall
  | FinalizeCall "'tx list" bytes "64 word" "64 word"
  | AcceptCall "'tx list" bytes "64 word" "64 word"
  | PersistCall bytes

datatype sync_state = inSync | outSync

record 'tx message_Message =
  Payload :: "'tx Block"
  Header :: bytes

text \<open>
  The chain: the block store (a type parameter, the interface \<^verbatim>\<open>database.DB\<close>), the
  tip, the provisioners, the synchronizer's state, the highest height seen, the
  blacklist, the log of executor calls and the log of event-bus publications.
\<close>

record ('tx, 'db) Chain =
  db :: 'db
  tip :: "'tx Block"
  p :: Provisioners
  state :: sync_state
  highestSeen :: "64 word"
  blacklisted :: TmpMap
  rusk :: "'tx executor_call list"
  published :: "(Topic \<times> 'tx Block) list"

text \<open>
  Everything chain.go calls and the sources do not define is a parameter: the executor's
  answers, the configuration constants, the verifier, the certificate check, the block
  store's transaction methods, \<^verbatim>\<open>Block.TamperExecutedTransaction\<close> (one iteration of
  the loop over the executed transactions), the fallback procedure, the synchronizer's
  \<^verbatim>\<open>processBlock\<close> and the hash of the duplicate window.
\<close>

record ('tx, 'db) chain_env =
  GetStateRoot :: "'tx executor_call list \<Rightarrow> error + bytes"
  Finalize :: "'tx executor_call list \<Rightarrow> 'tx list \<Rightarrow> bytes \<Rightarrow> 64 word \<Rightarrow> 64 word
                 \<Rightarrow> error + ('tx list \<times> Provisioners \<times> bytes)"
  Accept :: "'tx executor_call list \<Rightarrow> 'tx list \<Rightarrow> bytes \<Rightarrow> 64 word \<Rightarrow> 64 word
                 \<Rightarrow> error + ('tx list \<times> Provisioners \<times> bytes)"
  Persist :: "'tx executor_call list \<Rightarrow> bytes \<Rightarrow> error option"
  BlockGasLimit :: "64 word"
  PersistEvery :: "64 word"
  SanityCheckBlock :: "'tx Block \<Rightarrow> 'tx Block \<Rightarrow> error option"
  CheckBlockCertificate :: "Provisioners \<Rightarrow> 'tx Block \<Rightarrow> bytes \<Rightarrow> error option"
  TamperExecutedTransaction :: "'tx Block \<Rightarrow> 'tx \<Rightarrow> 'tx Block"
  database_StoreBlock :: "'db \<Rightarrow> 'tx Block \<Rightarrow> bool \<Rightarrow> error + 'db"
  database_ClearCandidateMessages :: "'db \<Rightarrow> error + 'db"
  tryFallback :: "('tx, 'db) Chain \<Rightarrow> 'tx Block \<Rightarrow> error option \<times> ('tx, 'db) Chain"
  processBlock :: "('tx, 'db) Chain \<Rightarrow> string \<Rightarrow> 64 word \<Rightarrow> 'tx Block \<Rightarrow> 8 word
                     \<Rightarrow> (bytes list \<times> error option) \<times> ('tx, 'db) Chain"
  Xxhash :: "bytes \<Rightarrow> bytes"

definition sanityCheckStateHash ::
  "('tx, 'db) chain_env \<Rightarrow> ('tx, 'db) Chain \<Rightarrow> error option \<times> ('tx, 'db) Chain" where
  "sanityCheckStateHash env c =
     (let c1 = c\<lparr>rusk := rusk c @ [GetStateRootCall]\<rparr> in
      case GetStateRoot env (rusk c) of
        Inl err \<Rightarrow> (Some err, c1)
      | Inr ruskStateHash \<Rightarrow>
          (let nodeStateHash = StateHash (Block.Header (tip c1)) in
           if nodeStateHash \<noteq> ruskStateHash \<or> length nodeStateHash = 0
           then (Some errInvalidStateHash, c1)
           else (None, c1)))"

definition runStateTransition ::
  "('tx, 'db) chain_env \<Rightarrow> ('tx, 'db) Chain \<Rightarrow> 'tx Block \<Rightarrow> 'tx Block
     \<Rightarrow> (error + 'tx Block) \<times> ('tx, 'db) Chain" where
  "runStateTransition env c tipBlk blk =
     (case sanityCheckStateHash env c of
        (Some err, c1) \<Rightarrow> (Inl err, c1)
      | (None, c1) \<Rightarrow>
          (let (resp, c2) =
                 (if Certificate.Step (Certificate (Block.Header blk)) = 3
                  then
                    (Finalize env (rusk c1) (Txs blk) (StateHash (Block.Header tipBlk))
                       (Height (Block.Header blk)) (BlockGasLimit env),
                     c1\<lparr>rusk := rusk c1 @
                        [FinalizeCall (Txs blk) (StateHash (Block.Header tipBlk))
                           (Height (Block.Header blk)) (BlockGasLimit env)]\<rparr>)
                  else
                    (Accept env (rusk c1) (Txs blk) (StateHash (Block.Header tipBlk))
                       (Height (Block.Header blk)) (BlockGasLimit env),
                     c1\<lparr>rusk := rusk c1 @
                        [AcceptCall (Txs blk) (StateHash (Block.Header tipBlk))
                           (Height (Block.Header blk)) (BlockGasLimit env)]\<rparr>))
           in case resp of
                Inl err \<Rightarrow> (Inl err, c2)
              | Inr (txs, provisionersUpdated, respStateHash) \<Rightarrow>
                  if respStateHash \<noteq> StateHash (Block.Header blk)
                  then (Inl errInvalidStateHash, c2)
                  else
                    (let blk' = fold (\<lambda>tx b. TamperExecutedTransaction env b tx) txs blk
                     in (Inr blk', c2\<lparr>p := provisionersUpdated\<rparr>))))"

definition isValidBlock ::
  "('tx, 'db) chain_env \<Rightarrow> ('tx, 'db) Chain \<Rightarrow> 'tx Block \<Rightarrow> 'tx Block \<Rightarrow> bool \<Rightarrow> error option" where
  "isValidBlock env c blk chainTipBlk withSanityCheck =
     (case (if withSanityCheck then SanityCheckBlock env chainTipBlk blk else None) of
        Some err \<Rightarrow> Some err
      | None \<Rightarrow> CheckBlockCertificate env (p c) blk (Seed (Block.Header chainTipBlk)))"

text \<open>
  Modelled from the spec: \<^verbatim>\<open>db.Update\<close> is not in the sources. Section 4.9 has it
  atomic: an error of the function it runs rolls the block-store change back.
  \<^verbatim>\<open>persist\<close> runs \<^verbatim>\<open>StoreBlock\<close> and, for a block to persist, the executor's
  \<^verbatim>\<open>Persist\<close> inside one update.
\<close>

definition persist ::
  "('tx, 'db) chain_env \<Rightarrow> ('tx, 'db) Chain \<Rightarrow> 'tx Block \<Rightarrow> error option \<times> ('tx, 'db) Chain" where
  "persist env c b =
     (let pe = PersistEvery env;
          persisted = (pe > 0 \<and> Height (Block.Header b) mod pe = 0)
      in case database_StoreBlock env (db c) b persisted of
           Inl err \<Rightarrow> (Some err, c)
         | Inr db' \<Rightarrow>
             if persisted
             then
               (let c1 = c\<lparr>rusk := rusk c @ [PersistCall (StateHash (Block.Header b))]\<rparr> in
                case Persist env (rusk c) (StateHash (Block.Header b)) of
                  Some err \<Rightarrow> (Some err, c1)
                | None \<Rightarrow> (None, c1\<lparr>db := db'\<rparr>))
             else (None, c\<lparr>db := db'\<rparr>))"

text \<open>
  \<^verbatim>\<open>postAcceptBlock\<close>: publish the accepted block, clear the candidate messages (a
  failure is logged and changes nothing). The copy of the stakes to the API's store runs
  in a goroutine on a store outside the chain and is left out.
\<close>

definition postAcceptBlock ::
  "('tx, 'db) chain_env \<Rightarrow> ('tx, 'db) Chain \<Rightarrow> 'tx Block \<Rightarrow> ('tx, 'db) Chain" where
  "postAcceptBlock env c blk =
     (let c1 = c\<lparr>published := published c @ [(topics_AcceptedBlock, blk)]\<rparr> in
      case database_ClearCandidateMessages env (db c1) of
        Inl err \<Rightarrow> c1
      | Inr db' \<Rightarrow> c1\<lparr>db := db'\<rparr>)"

definition acceptBlock ::
  "('tx, 'db) chain_env \<Rightarrow> ('tx, 'db) Chain \<Rightarrow> 'tx Block \<Rightarrow> bool \<Rightarrow> error option \<times> ('tx, 'db) Chain" where
  "acceptBlock env c blk withSanityCheck =
     (case isValidBlock env c blk (tip c) withSanityCheck of
        Some err \<Rightarrow> (Some err, c)
      | None \<Rightarrow>
          (case runStateTransition env c (tip c) blk of
             (Inl err, c1) \<Rightarrow> (Some err, c1)
           | (Inr b, c1) \<Rightarrow>
               (case persist env c1 b of
                  (Some err, c2) \<Rightarrow> (Some err, c2)
                | (None, c2) \<Rightarrow> (None, postAcceptBlock env (c2\<lparr>tip := b\<rparr>) b))))"

text \<open>
  \<^verbatim>\<open>ProcessBlockFromNetwork\<close>: the result is the pair of the returned buffers (nil is
  the empty list) and the returned error (nil is \<open>None\<close>), with the chain after the call.
\<close>

definition ProcessBlockFromNetwork ::
  "('tx, 'db) chain_env \<Rightarrow> ('tx, 'db) Chain \<Rightarrow> string \<Rightarrow> 'tx message_Message
     \<Rightarrow> (bytes list \<times> error option) \<times> ('tx, 'db) Chain" where
  "ProcessBlockFromNetwork env c srcPeerID m =
     (let blk = message_Message.Payload m;
          kh = (if length (message_Message.Header m) > 0 then hd (message_Message.Header m) else 255);
          hash = Hash (Block.Header blk)
      in if Has (Xxhash env) (blacklisted c) hash then (([], None), c)
         else if Height (Block.Header blk) = Height (Block.Header (tip c))
         then
           (if Hash (Block.Header blk) = Hash (Block.Header (tip c)) then (([], None), c)
            else
              (let hash = Hash (Block.Header (tip c)) in
               case tryFallback env c blk of
                 (Some err, c1) \<Rightarrow> (([], None), c1)
               | (None, c1) \<Rightarrow>
                   (let c2 = c1\<lparr>blacklisted := snd (Add (Xxhash env) (blacklisted c1) hash)\<rparr>
                    in processBlock env c2 srcPeerID (Height (Block.Header (tip c2))) blk kh)))
         else if Height (Block.Header blk) < Height (Block.Header (tip c)) then (([], None), c)
         else
           (let c1 = (if Height (Block.Header blk) > highestSeen c
                      then c\<lparr>highestSeen := Height (Block.Header blk)\<rparr> else c)
            in processBlock env c1 srcPeerID (Height (Block.Header (tip c1))) blk kh))"

section \<open>In-memory block store (pkg/core/database/lite/transactions.go)\<close>

text \<open>
  The tables of the store. The index constants, the types \<^verbatim>\<open>key\<close>, \<^verbatim>\<open>table\<close> and
  \<^verbatim>\<open>memdb\<close> and the variable \<^verbatim>\<open>stateKey\<close> are declared outside the sources. A
  table is a finite map from keys to byte strings; a \<^verbatim>\<open>memdb\<close> has one table per
  index. \<^verbatim>\<open>key\<close> is a byte array of a fixed size, the parameter \<open>keySize\<close>.
\<close>

datatype ind =
    blocksInd | txsInd | txHashInd | keyImagesInd | heightInd | stateInd
  | outputKeyInd | bidValuesInd | provisionersInd

type_synonym table = "(bytes, bytes) fmap"

type_synonym memdb = "ind \<Rightarrow> table"

record lite_DB =
  storage :: memdb

text \<open>
  A transaction: \<open>batch = None\<close> is a batch of length 0, which \<^verbatim>\<open>StoreBlock\<close>
  refuses; otherwise the batch has a table for every index.
\<close>

record transaction =
  writable :: bool
  db :: lite_DB
  batch :: "memdb option"

text \<open>
  The block codec and the helpers of package utils are parameters, with the constants
  declared elsewhere.
\<close>

record 'tx lite_env =
  MarshalBlock :: "'tx Block \<Rightarrow> error + bytes"
  UnmarshalBlock :: "bytes \<Rightarrow> error + 'tx Block"
  CalculateHash :: "'tx \<Rightarrow> error + bytes"
  EncodeBlockTx :: "'tx \<Rightarrow> 32 word \<Rightarrow> error + bytes"
  WriteUint64 :: "64 word \<Rightarrow> error + bytes"
  stateKey :: bytes
  keySize :: nat

text \<open>\<^verbatim>\<open>toKey\<close> copies the bytes into a zeroed key: longer input is cut, shorter is padded.\<close>

definition toKey :: "'tx lite_env \<Rightarrow> bytes \<Rightarrow> bytes" where
  "toKey env d = take (keySize env) d @ replicate (keySize env - length d) 0"

text \<open>\<^verbatim>\<open>binary.LittleEndian.Uint64\<close> of the first eight bytes.\<close>

definition uint64_le :: "bytes \<Rightarrow> 64 word" where
  "uint64_le bs = foldr (\<lambda>b acc. ucast b + acc * 256) (take 8 bs) 0"

text \<open>The loop of \<^verbatim>\<open>StoreBlock\<close> over the transactions of the block, \<open>i\<close> the index.\<close>

fun storeTxs :: "'tx lite_env \<Rightarrow> bytes \<Rightarrow> nat \<Rightarrow> 'tx list \<Rightarrow> memdb \<Rightarrow> error option \<times> memdb" where
  "storeTxs env blockHash i [] bt = (None, bt)"
| "storeTxs env blockHash i (tx # txs) bt =
     (case CalculateHash env tx of
        Inl err \<Rightarrow> (Some err, bt)
      | Inr txID \<Rightarrow>
          if length txID = 0 then (Some (Err ''empty chain tx id''), bt)
          else
            (case EncodeBlockTx env tx (of_nat i) of
               Inl err \<Rightarrow> (Some err, bt)
             | Inr data \<Rightarrow>
                 storeTxs env blockHash (Suc i) txs
                   (bt(txsInd := fmupd (toKey env txID) data (bt txsInd),
                       txHashInd := fmupd (toKey env txID) blockHash (bt txHashInd)))))"

text \<open>
  The loop that removes the expired bid values, on the storage itself: a key holds the
  expiry height in the eight bytes from offset 9; reading them from a shorter key panics.
\<close>

definition removeExpired :: "64 word \<Rightarrow> table \<Rightarrow> table outcome" where
  "removeExpired h tbl =
     (if fBex (fmdom tbl) (\<lambda>k. length (drop 9 k) < 8)
      then Panicked ''index out of range''
      else Returned (fmfilter (\<lambda>k. \<not> uint64_le (drop 9 k) < h) tbl))"

definition StoreBlock :: "'tx lite_env \<Rightarrow> transaction \<Rightarrow> 'tx Block \<Rightarrow> (error option \<times> transaction) outcome" where
  "StoreBlock env t b =
     (if \<not> writable t then Returned (Some (Err ''read-only transaction''), t)
      else
        (case batch t of
           None \<Rightarrow> Returned (Some (Err ''empty batch''), t)
         | Some bt \<Rightarrow>
             (case MarshalBlock env b of
                Inl err \<Rightarrow> Returned (Some err, t)
              | Inr blockBytes \<Rightarrow>
                  (let bt1 = bt(blocksInd := fmupd (toKey env (Hash (Block.Header b))) blockBytes (bt blocksInd)) in
                   case storeTxs env (Hash (Block.Header b)) 0 (Txs b) bt1 of
                     (Some err, bt2) \<Rightarrow> Returned (Some err, t\<lparr>batch := Some bt2\<rparr>)
                   | (None, bt2) \<Rightarrow>
                       (case WriteUint64 env (Height (Block.Header b)) of
                          Inl err \<Rightarrow> Returned (Some err, t\<lparr>batch := Some bt2\<rparr>)
                        | Inr heightBytes \<Rightarrow>
                            (let bt3 = bt2(heightInd := fmupd (toKey env heightBytes) blockBytes (bt2 heightInd));
                                 bt4 = bt3(stateInd := fmupd (toKey env (stateKey env)) (Hash (Block.Header b)) (bt3 stateInd))
                             in case removeExpired (Height (Block.Header b)) (storage (transaction.db t) bidValuesInd) of
                                  Panicked msg \<Rightarrow> Panicked msg
                                | Returned bids \<Rightarrow>
                                    Returned
                                      (None,
                                       t\<lparr>batch := Some bt4,
                                         db := (transaction.db t)\<lparr>storage :=
                                                 (storage (transaction.db t))(bidValuesInd := bids)\<rparr>\<rparr>)))))))"

text \<open>
  \<^verbatim>\<open>Commit\<close> writes every entry of the batch into the storage. With a batch of
  length 0 the read of \<^verbatim>\<open>t.batch[i]\<close> is out of range.
\<close>

definition Commit :: "transaction \<Rightarrow> (error option \<times> transaction) outcome" where
  "Commit t =
     (if \<not> writable t then Returned (Some (Err ''read-only transaction cannot commit changes''), t)
      else
        (case batch t of
           None \<Rightarrow> Panicked ''index out of range''
         | Some bt \<Rightarrow>
             Returned
               (None,
                t\<lparr>db := (transaction.db t)\<lparr>storage := (\<lambda>i. storage (transaction.db t) i ++\<^sub>f bt i)\<rparr>\<rparr>)))"

definition FetchBlockHeader :: "'tx lite_env \<Rightarrow> transaction \<Rightarrow> bytes \<Rightarrow> error + block_Header" where
  "FetchBlockHeader env t hash =
     (case fmlookup (storage (transaction.db t) blocksInd) (toKey env hash) of
        None \<Rightarrow> Inl ErrBlockNotFound
      | Some data \<Rightarrow>
          (case UnmarshalBlock env data of
             Inl err \<Rightarrow> Inl err
           | Inr b \<Rightarrow> Inr (Block.Header b)))"

definition FetchBlockHashByHeight :: "'tx lite_env \<Rightarrow> transaction \<Rightarrow> 64 word \<Rightarrow> error + bytes" where
  "FetchBlockHashByHeight env t h =
     (case WriteUint64 env h of
        Inl err \<Rightarrow> Inl err
      | Inr heightBuf \<Rightarrow>
          (case fmlookup (storage (transaction.db t) heightInd) (toKey env heightBuf) of
             None \<Rightarrow> Inl ErrBlockNotFound
           | Some data \<Rightarrow>
               (case UnmarshalBlock env data of
                  Inl err \<Rightarrow> Inl err
                | Inr b \<Rightarrow> Inr (Hash (Block.Header b)))))"

text \<open>\<^verbatim>\<open>FetchState\<close> returns the state's \<^verbatim>\<open>TipHash\<close>.\<close>

definition FetchState :: "'tx lite_env \<Rightarrow> transaction \<Rightarrow> error + bytes" where
  "FetchState env t =
     (case fmlookup (storage (transaction.db t) stateInd) (toKey env (stateKey env)) of
        None \<Rightarrow> Inl ErrStateNotFound
      | Some hash \<Rightarrow> if length hash = 0 then Inl ErrStateNotFound else Inr hash)"

definition FetchCurrentHeight :: "'tx lite_env \<Rightarrow> transaction \<Rightarrow> error + 64 word" where
  "FetchCurrentHeight env t =
     (case FetchState env t of
        Inl err \<Rightarrow> Inl err
      | Inr tipHash \<Rightarrow>
          (case FetchBlockHeader env t tipHash of
             Inl err \<Rightarrow> Inl err
           | Inr header \<Rightarrow> Inr (Height header)))"

section \<open>Concrete inputs\<close>

text \<open>
  A selector whose handler state is the score threshold: the verifier refuses a score
  without proof, \<^verbatim>\<open>LowerThreshold\<close> halves the threshold (section 4.4),
  \<^verbatim>\<open>Score.Equal\<close> compares all fields.
\<close>

definition sel_env :: "64 word selection_env" where
  "sel_env = \<lparr>Priority = (\<lambda>h a b. False),
              Verify = (\<lambda>h ev. if Proof ev = [] then Some (Err ''invalid proof'') else None),
              LowerThreshold = (\<lambda>h. h div 2),
              Equal = (\<lambda>a b. a = b),
              MarshalScore = (\<lambda>ev. Inr (Score.Score ev @ VoteHash ev))\<rparr>"

definition score1 :: Score where
  "score1 = \<lparr>Score = [9], Proof = [1], Z = [], BidListSubset = [], Seed = [], VoteHash = [7, 7]\<rparr>"

definition score_bad :: Score where
  "score_bad = \<lparr>Score = [9], Proof = [], Z = [], BidListSubset = [], Seed = [], VoteHash = [8]\<rparr>"

definition sel_empty :: "64 word Selector" where
  "sel_empty = \<lparr>Selector.handler = 8, bestEvent = Some emptyScore, timeout = 5, scoreID = 1, calls = []\<rparr>"

definition sel_best :: "64 word Selector" where
  "sel_best = \<lparr>Selector.handler = 8, bestEvent = Some score1, timeout = 5, scoreID = 1, calls = []\<rparr>"

text \<open>
  An agreement component whose committee has the key \<open>[1]\<close> at step 3 only, and an
  event of that sender at a given step.
\<close>

definition agr_handler :: agreement_handler where
  "agr_handler = \<lparr>IsMember = (\<lambda>pk rnd step. pk = [1] \<and> step = 3)\<rparr>"

definition agr0 :: "bytes agreement" where
  "agr0 = \<lparr>agreement.handler = agr_handler, accumulator = [], workerAmount = 4\<rparr>"

definition agr_event :: "8 word \<Rightarrow> consensus_Event" where
  "agr_event step =
     \<lparr>consensus_Event.Header = \<lparr>Round = 1, header_Header.Step = step, BlockHash = [7], PubKeyBLS = [1]\<rparr>,
      consensus_Event.Payload = [42]\<rparr>"

definition agr_unmarshal :: "header_Header \<Rightarrow> bytes \<Rightarrow> error + bytes" where
  "agr_unmarshal hdr payload = (if payload = [] then Inl (Err ''EOF'') else Inr payload)"

text \<open>
  A reduction handler with a committee of size 1 (quorum 2) in which every vote weighs 2;
  its \<^verbatim>\<open>StepVotes.Add\<close> appends keys and signatures and refuses a second step.
\<close>

definition red_handler :: reduction_Handler where
  "red_handler =
     \<lparr>VotesFor = (\<lambda>pk rnd step. 2),
      Committee = (\<lambda>rnd step. {#[1], [2]#}),
      CommitteeSize = (\<lambda>rnd. 1),
      CommitteeBits = (\<lambda>committee s. (if [1] \<in> s then 1 else 0) + (if [2] \<in> s then 2 else 0)),
      StepVotesAdd = (\<lambda>sv sig pk step.
         if StepVotes.Step sv \<noteq> 0 \<and> StepVotes.Step sv \<noteq> step then Inl (Err ''mismatched step'')
         else Inr (sv\<lparr>Apk := Apk sv @ pk, Signature := Signature sv @ sig, StepVotes.Step := step\<rparr>))\<rparr>"

definition vote :: "bytes \<Rightarrow> Reduction" where
  "vote pk = \<lparr>State = \<lparr>Round = 1, header_Header.Step = 1, BlockHash = [7], PubKeyBLS = pk\<rparr>,
              SignedHash = [9]\<rparr>"

definition agg_after_two :: Aggregator where
  "agg_after_two =
     \<lparr>Aggregator.handler = red_handler,
      voteSets = [[7] \<mapsto> (\<lparr>Apk = [1, 2], BitSet = 3, Signature = [9, 9], StepVotes.Step = 1\<rparr>,
                          {#[2], [2], [1], [1]#})]\<rparr>"

text \<open>
  A chain at height 5 with tip hash \<open>[170]\<close> and state hash \<open>[5]\<close>, over a block store
  that is the list of the stored blocks. The executor reports the state root \<open>[5]\<close>,
  \<^verbatim>\<open>Finalize\<close> answers with the root \<open>[6]\<close> and \<^verbatim>\<open>Accept\<close> with \<open>[7]\<close>;
  the verifier accepts everything, the fallback replaces the tip, the synchronizer does
  nothing.
\<close>

definition provs0 :: Provisioners where
  "provs0 = \<lparr>Provisioners.Set = [[1], [2]], Members = []\<rparr>"

definition mk_block :: "64 word \<Rightarrow> bytes \<Rightarrow> bytes \<Rightarrow> 8 word \<Rightarrow> nat Block" where
  "mk_block h hash stateHash step =
     \<lparr>Block.Header =
        \<lparr>Version = 0, Height = h, Timestamp = 0, PrevBlockHash = [], block_Header.Seed = [],
         TxRoot = [],
         Certificate = \<lparr>StepOneBatchedSig = [], StepTwoBatchedSig = [], Certificate.Step = step,
                         StepOneCommittee = 0, StepTwoCommittee = 0\<rparr>,
         block_Header.Hash = hash, StateHash = stateHash\<rparr>,
      Txs = [11, 12]\<rparr>"

definition ch_env :: "(nat, nat Block list) chain_env" where
  "ch_env =
     \<lparr>GetStateRoot = (\<lambda>hist. Inr [5]),
      Finalize = (\<lambda>hist txs sh h gas. Inr (txs, provs0, [6])),
      Accept = (\<lambda>hist txs sh h gas. Inr (txs, provs0, [7])),
      Persist = (\<lambda>hist sh. None),
      BlockGasLimit = 1000,
      PersistEvery = 2,
      SanityCheckBlock = (\<lambda>tipBlk blk. None),
      CheckBlockCertificate = (\<lambda>provs blk seed. None),
      TamperExecutedTransaction = (\<lambda>blk tx. blk),
      database_StoreBlock = (\<lambda>d blk persisted. Inr (d @ [blk])),
      database_ClearCandidateMessages = (\<lambda>d. Inr d),
      tryFallback = (\<lambda>c blk. (None, c\<lparr>tip := blk\<rparr>)),
      processBlock = (\<lambda>c src h blk kh. (([], None), c)),
      Xxhash = (\<lambda>b. b)\<rparr>"

definition chain0 :: "(nat, nat Block list) Chain" where
  "chain0 =
     \<lparr>Chain.db = [], tip = mk_block 5 [170] [5] 3, p = provs0, state = inSync, highestSeen = 5,
      blacklisted = NewTmpMap 1000, rusk = [], published = []\<rparr>"

text \<open>
  A block message from the network, and the chain after the fallback to the competing
  block \<open>[187]\<close> of height 5: the displaced tip hash \<open>[170]\<close> is in the blacklist.
\<close>

definition block_msg :: "nat Block \<Rightarrow> nat message_Message" where
  "block_msg blk = \<lparr>message_Message.Payload = blk, message_Message.Header = [3]\<rparr>"

definition chain_after_fallback :: "(nat, nat Block list) Chain" where
  "chain_after_fallback =
     chain0\<lparr>tip := mk_block 5 [187] [6] 3,
            blacklisted := \<lparr>height = 0, tolerance = 1000, msgSets = [0 \<mapsto> {[170]}]\<rparr>\<rparr>"

text \<open>
  A block store with 32-byte keys and a toy block codec (height, step and hash length in
  one byte each, then the hash and the state hash), a writable transaction on the empty
  store, and the transaction after storing the block of height 7 and hash \<open>[187]\<close> and
  after committing it.
\<close>

definition lite_marshal :: "nat Block \<Rightarrow> error + bytes" where
  "lite_marshal b =
     Inr ([ucast (Height (Block.Header b)), Certificate.Step (Certificate (Block.Header b)),
           of_nat (length (Hash (Block.Header b)))]
          @ Hash (Block.Header b) @ StateHash (Block.Header b))"

definition lite_unmarshal :: "bytes \<Rightarrow> error + nat Block" where
  "lite_unmarshal bs =
     (case bs of
        h # s # n # rest \<Rightarrow> Inr (mk_block (ucast h) (take (unat n) rest) (drop (unat n) rest) s)
      | _ \<Rightarrow> Inl (Err ''unexpected EOF''))"

definition lite_env0 :: "nat lite_env" where
  "lite_env0 =
     \<lparr>MarshalBlock = lite_marshal,
      UnmarshalBlock = lite_unmarshal,
      CalculateHash = (\<lambda>tx. Inr [of_nat tx]),
      EncodeBlockTx = (\<lambda>tx i. Inr [of_nat tx, ucast i]),
      WriteUint64 = (\<lambda>h. Inr (map (\<lambda>i. ucast (drop_bit (8 * i) h)) [0..<8])),
      stateKey = [1],
      keySize = 32\<rparr>"

definition lite_t0 :: transaction where
  "lite_t0 = \<lparr>writable = True,
              transaction.db = \<lparr>storage = (\<lambda>i. fmempty)\<rparr>,
              batch = Some (\<lambda>i. fmempty)\<rparr>"

definition lite_t1 :: transaction where
  "lite_t1 =
     lite_t0\<lparr>batch := Some
       ((\<lambda>i. fmempty)
          (blocksInd := fmupd (toKey lite_env0 [187]) [7, 3, 1, 187, 6] fmempty,
           txsInd := fmupd (toKey lite_env0 [12]) [12, 1] (fmupd (toKey lite_env0 [11]) [11, 0] fmempty),
           txHashInd := fmupd (toKey lite_env0 [12]) [187] (fmupd (toKey lite_env0 [11]) [187] fmempty),
           heightInd := fmupd (toKey lite_env0 [7, 0, 0, 0, 0, 0, 0, 0]) [7, 3, 1, 187, 6] fmempty,
           stateInd := fmupd (toKey lite_env0 [1]) [187] fmempty))\<rparr>"

definition lite_t2 :: transaction where
  "lite_t2 =
     lite_t1\<lparr>transaction.db := \<lparr>storage =
       (\<lambda>i. fmempty)
          (blocksInd := fmupd (toKey lite_env0 [187]) [7, 3, 1, 187, 6] fmempty,
           txsInd := fmupd (toKey lite_env0 [12]) [12, 1] (fmupd (toKey lite_env0 [11]) [11, 0] fmempty),
           txHashInd := fmupd (toKey lite_env0 [12]) [187] (fmupd (toKey lite_env0 [11]) [187] fmempty),
           heightInd := fmupd (toKey lite_env0 [7, 0, 0, 0, 0, 0, 0, 0]) [7, 3, 1, 187, 6] fmempty,
           stateInd := fmupd (toKey lite_env0 [1]) [187] fmempty)\<rparr>\<rparr>"

section \<open>Theorems\<close>

subsection \<open>Stall detector\<close>

text \<open>
  For every reply but \<^verbatim>\<open>NotFound\<close>, adding a command whose expected replies were
  not pending and removing the reply gives the map back.
\<close>

lemma stall_roundtrip_other_replies:
  assumes reply: "reply \<in> set (addMessage cmd)"
    and not_pending: "\<forall>r\<in>set (addMessage cmd). responses d r = None"
    and other: "reply \<noteq> NotFound"
  shows "responses (RemoveMessage (AddMessage d clock cmd) reply) = responses d"
proof (rule ext)
  fix x
  show "responses (RemoveMessage (AddMessage d clock cmd) reply) x = responses d x"
    using reply not_pending other
    by (cases cmd) (auto simp: RemoveMessage_def AddMessage_def)
qed

text \<open>
  C9 (failing input). On a fresh detector, \<^verbatim>\<open>AddMessage(GetData)\<close> followed by
  \<^verbatim>\<open>RemoveMessage(NotFound)\<close>, an expected reply of \<^verbatim>\<open>GetData\<close>, leaves
  \<^verbatim>\<open>Block\<close> and \<^verbatim>\<open>Tx\<close> pending: the map is not back to what it was.
\<close>

theorem stall_getdata_notfound_leaves_pending:
  "responses (RemoveMessage (AddMessage (NewDetector 5 1) clock100 GetData) NotFound) Block = Some 105
   \<and> responses (RemoveMessage (AddMessage (NewDetector 5 1) clock100 GetData) NotFound) Tx = Some 105
   \<and> responses (RemoveMessage (AddMessage (NewDetector 5 1) clock100 GetData) NotFound) NotFound = None
   \<and> responses (NewDetector 5 1) Block = None
   \<and> NotFound \<in> set (addMessage GetData)"
  by (simp add: RemoveMessage_def AddMessage_def NewDetector_def clock100_def)

subsection \<open>Score selector\<close>

text \<open>
  C7. A call of \<^verbatim>\<open>Process\<close> that returns an error, from the verification of the
  event or from its repropagation, leaves the selector's best event as it was before the
  call.
\<close>

theorem Process_error_restores_bestEvent:
  assumes "Process env s ev = Returned (Some err, s')"
  shows "bestEvent s' = bestEvent s"
  using assms
  by (auto simp: Process_def getBestEvent_def setBestEvent_def repropagate_def Let_def
           split: option.splits if_splits sum.splits prod.splits)

theorem Process_error_restores_bestEvent_witness:
  "Process sel_env sel_best score_bad = Returned (Some (Err ''invalid proof''), sel_best)
   \<and> bestEvent sel_best = Some score1"
proof -
  have h: "Process sel_env sel_best score_bad = Returned (Some (Err ''invalid proof''), sel_best)"
    by (simp add: Process_def getBestEvent_def setBestEvent_def sel_env_def sel_best_def score_bad_def
          score1_def emptyScore_def)
  from Process_error_restores_bestEvent [OF h] h show ?thesis
    by (simp add: sel_best_def)
qed

text \<open>
  C6, as the code has it. \<^verbatim>\<open>publishBestEvent\<close> pauses the score listener and
  publishes, as the best score, 32 zero bytes when the best event is the empty score and
  the best event's vote hash otherwise; in both cases it then lowers the threshold and
  doubles the timeout (an int64 multiplication, which wraps).
\<close>

theorem publishBestEvent_always_doubles:
  assumes "bestEvent s = Some best"
  shows "publishBestEvent env s =
           Returned (None,
             s\<lparr>calls := calls s @
                  [Pause (scoreID s),
                   SendWithHeader topics_BestScore
                     (if Equal env best emptyScore then replicate 32 0 else VoteHash best) [] (scoreID s)],
               Selector.handler := LowerThreshold env (Selector.handler s),
               timeout := timeout s * 2\<rparr>)"
  using assms
  by (simp add: publishBestEvent_def getBestEvent_def IncreaseTimeOut_def ID_def Let_def)

theorem publishBestEvent_always_doubles_witness:
  "bestEvent sel_empty = Some emptyScore
   \<and> publishBestEvent sel_env sel_empty =
       Returned (None,
         \<lparr>Selector.handler = 4, bestEvent = Some emptyScore, timeout = 10, scoreID = 1,
          calls = [Pause 1, SendWithHeader topics_BestScore (replicate 32 0) [] 1]\<rparr>)"
proof -
  have h: "bestEvent sel_empty = Some emptyScore" by (simp add: sel_empty_def)
  from publishBestEvent_always_doubles [OF h, of sel_env] h show ?thesis
    by (simp add: sel_empty_def sel_env_def)
qed

text \<open>
  C6, as stated, fails: a selector that holds a valid score (not the empty one) with
  timeout 5 and threshold 8 publishes that score's vote hash, and its timeout is 10 and
  its threshold 4 afterwards.
\<close>

theorem publishBestEvent_nonempty_counterexample:
  "bestEvent sel_best = Some score1
   \<and> \<not> Equal sel_env score1 emptyScore
   \<and> timeout sel_best = 5 \<and> Selector.handler sel_best = 8
   \<and> publishBestEvent sel_env sel_best =
       Returned (None,
         \<lparr>Selector.handler = 4, bestEvent = Some score1, timeout = 10, scoreID = 1,
          calls = [Pause 1, SendWithHeader topics_BestScore [7, 7] [] 1]\<rparr>)"
  by (simp add: publishBestEvent_def getBestEvent_def IncreaseTimeOut_def ID_def Let_def
        sel_best_def sel_env_def score1_def emptyScore_def)

subsection \<open>Agreement filter\<close>

text \<open>
  C4, as the code has it. \<^verbatim>\<open>Filter\<close> rejects a message exactly when its sender is
  not a committee member at the round and step of its header; membership at the step
  before is not looked at. A message that passes is unmarshalled and handed to the
  accumulator; a rejected one changes nothing.
\<close>

theorem Filter_checks_current_step_only:
  "Filter a hdr = (\<not> IsMember (agreement.handler a) (PubKeyBLS hdr) (Round hdr) (header_Header.Step hdr))
   \<and> FilteringListener Unmarshal a event =
       (if IsMember (agreement.handler a) (PubKeyBLS (consensus_Event.Header event))
             (Round (consensus_Event.Header event)) (header_Header.Step (consensus_Event.Header event))
        then (case Unmarshal (consensus_Event.Header event) (consensus_Event.Payload event) of
                Inl err \<Rightarrow> (Some err, a)
              | Inr ev \<Rightarrow> (None, a\<lparr>accumulator := accumulator a @ [ev]\<rparr>))
        else (None, a))"
  by (simp add: Filter_def FilteringListener_def CollectAgreementEvent_def)

text \<open>
  C4, as stated, fails: the sender \<open>[1]\<close> is a member at step 3 and not at step 2, and
  its agreement message for step 3 is not filtered out but reaches the accumulator.
\<close>

theorem Filter_previous_step_counterexample:
  "\<not> IsMember (agreement.handler agr0) (PubKeyBLS (consensus_Event.Header (agr_event 3)))
        (Round (consensus_Event.Header (agr_event 3)))
        (header_Header.Step (consensus_Event.Header (agr_event 3)) - 1)
   \<and> \<not> Filter agr0 (consensus_Event.Header (agr_event 3))
   \<and> FilteringListener agr_unmarshal agr0 (agr_event 3) = (None, agr0\<lparr>accumulator := [[42]]\<rparr>)"
  by (simp add: Filter_def FilteringListener_def CollectAgreementEvent_def agr0_def agr_handler_def
        agr_event_def agr_unmarshal_def)

subsection \<open>Vote aggregator\<close>

lemma insertLoop_replicate: "insertLoop n pk c = c + replicate_mset n pk"
  by (induction n arbitrary: c) (simp_all add: Insert_def)

text \<open>
  C3, as the code has it. When \<^verbatim>\<open>StepVotes.Add\<close> succeeds, \<^verbatim>\<open>CollectVote\<close>
  adds the sender to the cluster of the vote's block hash as many times as its voting
  weight, and returns a result exactly when the occurrences accumulated for that hash,
  this vote included, reach the quorum (the ceiling of two thirds of the committee size,
  plus one): on the first such call and on every later one. The result carries the block
  hash and the StepVotes with the committee bitset; below the quorum the result is nil.
\<close>

theorem CollectVote_quorum:
  assumes entry: "(case voteSets a (BlockHash (State ev)) of
                     None \<Rightarrow> (NewStepVotes, NewCluster)
                   | Some found \<Rightarrow> found) = (sv0, cluster0)"
    and add: "StepVotesAdd (Aggregator.handler a) sv0 (SignedHash ev) (PubKeyBLS (State ev))
                (header_Header.Step (State ev)) = Inr sv"
    and cl: "cluster = cluster0 + replicate_mset
               (nat (VotesFor (Aggregator.handler a) (PubKeyBLS (State ev)) (Round (State ev))
                       (header_Header.Step (State ev))))
               (PubKeyBLS (State ev))"
    and bits: "svq = sv\<lparr>BitSet := CommitteeBits (Aggregator.handler a)
                  (Committee (Aggregator.handler a) (Round (State ev)) (header_Header.Step (State ev)))
                  (set_mset cluster)\<rparr>"
  shows "CollectVote a ev =
           (if Quorum (Aggregator.handler a) (Round (State ev)) \<le> int (size cluster)
            then Returned (Some \<lparr>Result.Hash = BlockHash (State ev), SV = svq\<rparr>,
                           a\<lparr>voteSets := (voteSets a)(BlockHash (State ev) \<mapsto> (svq, cluster))\<rparr>)
            else Returned (None, a\<lparr>voteSets := (voteSets a)(BlockHash (State ev) \<mapsto> (sv, cluster))\<rparr>))"
  using entry add
  by (simp add: CollectVote_def Let_def insertLoop_replicate TotalOccurrences_def addBitSet_def
        Cluster_Set_def cl bits)

theorem CollectVote_quorum_witness:
  "CollectVote (NewAggregator red_handler) (vote [1]) =
     Returned (Some \<lparr>Result.Hash = [7], SV = \<lparr>Apk = [1], BitSet = 1, Signature = [9], StepVotes.Step = 1\<rparr>\<rparr>,
               \<lparr>Aggregator.handler = red_handler,
                voteSets = [[7] \<mapsto> (\<lparr>Apk = [1], BitSet = 1, Signature = [9], StepVotes.Step = 1\<rparr>,
                                    {#[1], [1]#})]\<rparr>)"
proof -
  have entry: "(case voteSets (NewAggregator red_handler) (BlockHash (State (vote [1]))) of
                  None \<Rightarrow> (NewStepVotes, NewCluster)
                | Some found \<Rightarrow> found) = (NewStepVotes, {#})"
    by (simp add: NewAggregator_def NewCluster_def)
  have add: "StepVotesAdd (Aggregator.handler (NewAggregator red_handler)) NewStepVotes
               (SignedHash (vote [1])) (PubKeyBLS (State (vote [1])))
               (header_Header.Step (State (vote [1]))) =
             Inr \<lparr>Apk = [1], BitSet = 0, Signature = [9], StepVotes.Step = 1\<rparr>"
    by (simp add: NewAggregator_def red_handler_def NewStepVotes_def vote_def)
  have cl: "{#[1], [1]#} = {#} + replicate_mset
              (nat (VotesFor (Aggregator.handler (NewAggregator red_handler)) (PubKeyBLS (State (vote [1])))
                      (Round (State (vote [1]))) (header_Header.Step (State (vote [1])))))
              (PubKeyBLS (State (vote [1])))"
    by (simp add: NewAggregator_def red_handler_def vote_def numeral_2_eq_2)
  have bits: "\<lparr>Apk = [1], BitSet = 1, Signature = [9], StepVotes.Step = 1\<rparr> =
              \<lparr>Apk = [1], BitSet = 0, Signature = [9], StepVotes.Step = 1\<rparr>
                \<lparr>BitSet := CommitteeBits (Aggregator.handler (NewAggregator red_handler))
                   (Committee (Aggregator.handler (NewAggregator red_handler)) (Round (State (vote [1])))
                      (header_Header.Step (State (vote [1]))))
                   (set_mset {#[1], [1]#})\<rparr>"
    by (simp add: NewAggregator_def red_handler_def vote_def)
  from CollectVote_quorum [OF entry add cl bits] show ?thesis
    by (simp add: NewAggregator_def Quorum_def red_handler_def vote_def)
qed

text \<open>
  C3, as stated, fails on the word "first": with quorum 2 and votes of weight 2, the first
  vote for a hash reaches the quorum and returns a result, and the second vote for the
  same hash returns a result again.
\<close>

theorem CollectVote_after_quorum_counterexample:
  "Quorum red_handler 1 = 2
   \<and> CollectVotes (NewAggregator red_handler) [vote [1], vote [2]] =
       Returned
         ([Some \<lparr>Result.Hash = [7], SV = \<lparr>Apk = [1], BitSet = 1, Signature = [9], StepVotes.Step = 1\<rparr>\<rparr>,
           Some \<lparr>Result.Hash = [7], SV = \<lparr>Apk = [1, 2], BitSet = 3, Signature = [9, 9], StepVotes.Step = 1\<rparr>\<rparr>],
          agg_after_two)"
  by (simp add: CollectVote_def Let_def NewAggregator_def Quorum_def red_handler_def vote_def
        NewStepVotes_def NewCluster_def TotalOccurrences_def Insert_def addBitSet_def Cluster_Set_def
        agg_after_two_def numeral_2_eq_2)

subsection \<open>Chain acceptor: state transition\<close>

lemma sanityCheckStateHash_chain:
  "sanityCheckStateHash env c = (r, c1) \<Longrightarrow> c1 = c\<lparr>rusk := rusk c @ [GetStateRootCall]\<rparr>"
  by (auto simp: sanityCheckStateHash_def Let_def split: sum.splits if_splits)

lemma runStateTransition_success:
  assumes "runStateTransition env c tipBlk blk = (Inr b, c1)"
  shows "rusk c1 = rusk c @
           [GetStateRootCall,
            (if Certificate.Step (Certificate (Block.Header blk)) = 3
             then FinalizeCall (Txs blk) (StateHash (Block.Header tipBlk)) (Height (Block.Header blk)) (BlockGasLimit env)
             else AcceptCall (Txs blk) (StateHash (Block.Header tipBlk)) (Height (Block.Header blk)) (BlockGasLimit env))]"
proof -
  obtain r c0 where s: "sanityCheckStateHash env c = (r, c0)"
    by (cases "sanityCheckStateHash env c")
  then have c0: "c0 = c\<lparr>rusk := rusk c @ [GetStateRootCall]\<rparr>"
    by (rule sanityCheckStateHash_chain)
  from assms s have "r = None"
    by (cases r) (simp_all add: runStateTransition_def)
  with assms s c0 show ?thesis
    by (auto simp: runStateTransition_def Let_def split: sum.splits if_splits prod.splits)
qed

lemma persist_rusk:
  assumes "persist env c b = (r, c2)"
  shows "\<exists>rest. rusk c2 = rusk c @ rest \<and> (\<forall>x\<in>set rest. \<exists>h. x = PersistCall h)"
  using assms
  by (auto simp: persist_def Let_def split: sum.splits if_splits option.splits)

lemma postAcceptBlock_rusk: "rusk (postAcceptBlock env c b) = rusk c"
  by (simp add: postAcceptBlock_def Let_def split: sum.splits)

text \<open>
  C1. When \<^verbatim>\<open>acceptBlock\<close> accepts a block, the calls it made to the executor are
  the state-root check, then exactly one state transition, then at most the persist call:
  the transition is \<^verbatim>\<open>Finalize\<close> when the certificate's step is 3 and
  \<^verbatim>\<open>Accept\<close> for every other step, in both cases with the block's transactions, the
  tip's state hash, the block's height and the gas limit.
\<close>

theorem acceptBlock_dispatches_on_certificate_step:
  assumes "acceptBlock env c blk withSanityCheck = (None, c')"
  shows "\<exists>rest. rusk c' = rusk c @
           [GetStateRootCall,
            (if Certificate.Step (Certificate (Block.Header blk)) = 3
             then FinalizeCall (Txs blk) (StateHash (Block.Header (tip c))) (Height (Block.Header blk)) (BlockGasLimit env)
             else AcceptCall (Txs blk) (StateHash (Block.Header (tip c))) (Height (Block.Header blk)) (BlockGasLimit env))]
           @ rest
         \<and> (\<forall>x\<in>set rest. \<exists>h. x = PersistCall h)"
proof -
  from assms obtain b c1 where rst: "runStateTransition env c (tip c) blk = (Inr b, c1)"
    by (auto simp: acceptBlock_def split: option.splits sum.splits prod.splits)
  from assms rst obtain c2 where ps: "persist env c1 b = (None, c2)"
    and c': "c' = postAcceptBlock env (c2\<lparr>tip := b\<rparr>) b"
    by (auto simp: acceptBlock_def split: option.splits sum.splits prod.splits)
  from persist_rusk [OF ps] obtain rest where
    rest: "rusk c2 = rusk c1 @ rest" "\<forall>x\<in>set rest. \<exists>h. x = PersistCall h"
    by blast
  have "rusk c' = rusk c2"
    by (simp add: c' postAcceptBlock_rusk)
  with rest runStateTransition_success [OF rst] show ?thesis
    by auto
qed

theorem acceptBlock_dispatches_on_certificate_step_witness:
  "fst (acceptBlock ch_env chain0 (mk_block 6 [187] [6] 3) True) = None
   \<and> rusk (snd (acceptBlock ch_env chain0 (mk_block 6 [187] [6] 3) True)) =
       [GetStateRootCall, FinalizeCall [11, 12] [5] 6 1000, PersistCall [6]]
   \<and> fst (acceptBlock ch_env chain0 (mk_block 6 [187] [7] 4) True) = None
   \<and> rusk (snd (acceptBlock ch_env chain0 (mk_block 6 [187] [7] 4) True)) =
       [GetStateRootCall, AcceptCall [11, 12] [5] 6 1000, PersistCall [7]]"
proof -
  have e3: "acceptBlock ch_env chain0 (mk_block 6 [187] [6] 3) True =
              (None, snd (acceptBlock ch_env chain0 (mk_block 6 [187] [6] 3) True))"
    by (simp add: acceptBlock_def isValidBlock_def runStateTransition_def sanityCheckStateHash_def
          persist_def postAcceptBlock_def ch_env_def chain0_def mk_block_def Let_def)
  have e4: "acceptBlock ch_env chain0 (mk_block 6 [187] [7] 4) True =
              (None, snd (acceptBlock ch_env chain0 (mk_block 6 [187] [7] 4) True))"
    by (simp add: acceptBlock_def isValidBlock_def runStateTransition_def sanityCheckStateHash_def
          persist_def postAcceptBlock_def ch_env_def chain0_def mk_block_def Let_def)
  from acceptBlock_dispatches_on_certificate_step [OF e3]
       acceptBlock_dispatches_on_certificate_step [OF e4]
  show ?thesis
    by (simp add: acceptBlock_def isValidBlock_def runStateTransition_def sanityCheckStateHash_def
          persist_def postAcceptBlock_def ch_env_def chain0_def mk_block_def Let_def)
qed

text \<open>
  C2. For a valid block on which the state-root check passes and the executor completes
  the transition with a state root: if the root differs from the block's state hash,
  \<^verbatim>\<open>runStateTransition\<close> and \<^verbatim>\<open>acceptBlock\<close> return the invalid-state-hash error
  and the chain is as before but for the log of the two executor calls (the block store
  and the tip are unchanged, nothing was persisted); if they are equal,
  \<^verbatim>\<open>runStateTransition\<close> returns the block and no error.
\<close>

theorem invalid_state_hash_rejects_block:
  assumes valid: "isValidBlock env c blk (tip c) withSanityCheck = None"
    and sane: "sanityCheckStateHash env c = (None, c1)"
    and exec: "(if Certificate.Step (Certificate (Block.Header blk)) = 3
                then Finalize env (rusk c1) (Txs blk) (StateHash (Block.Header (tip c)))
                       (Height (Block.Header blk)) (BlockGasLimit env)
                else Accept env (rusk c1) (Txs blk) (StateHash (Block.Header (tip c)))
                       (Height (Block.Header blk)) (BlockGasLimit env))
               = Inr (txs, provisionersUpdated, respStateHash)"
    and call: "call = (if Certificate.Step (Certificate (Block.Header blk)) = 3
                then FinalizeCall (Txs blk) (StateHash (Block.Header (tip c)))
                       (Height (Block.Header blk)) (BlockGasLimit env)
                else AcceptCall (Txs blk) (StateHash (Block.Header (tip c)))
                       (Height (Block.Header blk)) (BlockGasLimit env))"
  shows "(respStateHash \<noteq> StateHash (Block.Header blk) \<longrightarrow>
            runStateTransition env c (tip c) blk =
              (Inl errInvalidStateHash, c\<lparr>rusk := rusk c @ [GetStateRootCall, call]\<rparr>)
            \<and> acceptBlock env c blk withSanityCheck =
                (Some errInvalidStateHash, c\<lparr>rusk := rusk c @ [GetStateRootCall, call]\<rparr>)
            \<and> Chain.db (snd (acceptBlock env c blk withSanityCheck)) = Chain.db c
            \<and> tip (snd (acceptBlock env c blk withSanityCheck)) = tip c)
       \<and> (respStateHash = StateHash (Block.Header blk) \<longrightarrow>
            fst (runStateTransition env c (tip c) blk) =
              Inr (fold (\<lambda>tx b. TamperExecutedTransaction env b tx) txs blk))"
proof -
  have c1: "c1 = c\<lparr>rusk := rusk c @ [GetStateRootCall]\<rparr>"
    using sane by (rule sanityCheckStateHash_chain)
  have bad: "runStateTransition env c (tip c) blk =
               (Inl errInvalidStateHash, c\<lparr>rusk := rusk c @ [GetStateRootCall, call]\<rparr>)"
    if "respStateHash \<noteq> StateHash (Block.Header blk)"
    using that sane exec c1 call
    by (auto simp: runStateTransition_def Let_def split: if_splits)
  have good: "fst (runStateTransition env c (tip c) blk) =
                Inr (fold (\<lambda>tx b. TamperExecutedTransaction env b tx) txs blk)"
    if "respStateHash = StateHash (Block.Header blk)"
    using that sane exec c1
    by (auto simp: runStateTransition_def Let_def split: if_splits)
  from bad good valid show ?thesis
    by (simp add: acceptBlock_def)
qed

theorem invalid_state_hash_rejects_block_witness:
  "runStateTransition ch_env chain0 (tip chain0) (mk_block 6 [187] [9] 3) =
     (Inl errInvalidStateHash, chain0\<lparr>rusk := [GetStateRootCall, FinalizeCall [11, 12] [5] 6 1000]\<rparr>)
   \<and> acceptBlock ch_env chain0 (mk_block 6 [187] [9] 3) True =
     (Some errInvalidStateHash, chain0\<lparr>rusk := [GetStateRootCall, FinalizeCall [11, 12] [5] 6 1000]\<rparr>)
   \<and> Chain.db (snd (acceptBlock ch_env chain0 (mk_block 6 [187] [9] 3) True)) = []
   \<and> tip (snd (acceptBlock ch_env chain0 (mk_block 6 [187] [9] 3) True)) = mk_block 5 [170] [5] 3
   \<and> fst (runStateTransition ch_env chain0 (tip chain0) (mk_block 6 [187] [6] 3)) =
       Inr (mk_block 6 [187] [6] 3)"
proof -
  have valid: "isValidBlock ch_env chain0 blk (tip chain0) True = None" for blk
    by (simp add: isValidBlock_def ch_env_def)
  have sane: "sanityCheckStateHash ch_env chain0 = (None, chain0\<lparr>rusk := [GetStateRootCall]\<rparr>)"
    by (simp add: sanityCheckStateHash_def ch_env_def chain0_def mk_block_def Let_def)
  have exec: "(if Certificate.Step (Certificate (Block.Header (mk_block 6 [187] sh 3))) = 3
               then Finalize ch_env (rusk (chain0\<lparr>rusk := [GetStateRootCall]\<rparr>)) (Txs (mk_block 6 [187] sh 3))
                      (StateHash (Block.Header (tip chain0))) (Height (Block.Header (mk_block 6 [187] sh 3)))
                      (BlockGasLimit ch_env)
               else Accept ch_env (rusk (chain0\<lparr>rusk := [GetStateRootCall]\<rparr>)) (Txs (mk_block 6 [187] sh 3))
                      (StateHash (Block.Header (tip chain0))) (Height (Block.Header (mk_block 6 [187] sh 3)))
                      (BlockGasLimit ch_env))
              = Inr ([11, 12], provs0, [6])" for sh
    by (simp add: ch_env_def mk_block_def)
  have call: "FinalizeCall [11, 12] [5] 6 1000 =
              (if Certificate.Step (Certificate (Block.Header (mk_block 6 [187] sh 3))) = 3
               then FinalizeCall (Txs (mk_block 6 [187] sh 3)) (StateHash (Block.Header (tip chain0)))
                      (Height (Block.Header (mk_block 6 [187] sh 3))) (BlockGasLimit ch_env)
               else AcceptCall (Txs (mk_block 6 [187] sh 3)) (StateHash (Block.Header (tip chain0)))
                      (Height (Block.Header (mk_block 6 [187] sh 3))) (BlockGasLimit ch_env))" for sh
    by (simp add: ch_env_def mk_block_def chain0_def)
  from invalid_state_hash_rejects_block [OF valid sane exec call, of "[9]"]
       invalid_state_hash_rejects_block [OF valid sane exec call, of "[6]"]
  show ?thesis
    by (simp add: mk_block_def chain0_def ch_env_def)
qed

subsection \<open>Chain acceptor: blocks from the network\<close>

lemma Has_Add: "Has xxhash (snd (Add xxhash t b)) b"
  by (simp add: Add_def Has_def HasAt_def Let_def)

lemma blacklisted_block_dropped:
  assumes "Has (Xxhash env) (blacklisted c) (Hash (Block.Header (message_Message.Payload m)))"
  shows "ProcessBlockFromNetwork env c srcPeerID m = (([], None), c)"
  using assms by (simp add: ProcessBlockFromNetwork_def Let_def)

text \<open>
  After a successful fallback the synchronizer is handed a chain whose blacklist holds the
  hash of the displaced tip.
\<close>

lemma fallback_hands_over_blacklisted_tip:
  assumes "Height (Block.Header (message_Message.Payload m)) = Height (Block.Header (tip c))"
    and "Hash (Block.Header (message_Message.Payload m)) \<noteq> Hash (Block.Header (tip c))"
    and "\<not> Has (Xxhash env) (blacklisted c) (Hash (Block.Header (message_Message.Payload m)))"
    and "tryFallback env c (message_Message.Payload m) = (None, c1)"
    and "c2 = c1\<lparr>blacklisted := snd (Add (Xxhash env) (blacklisted c1) (Hash (Block.Header (tip c))))\<rparr>"
  shows "ProcessBlockFromNetwork env c srcPeerID m =
           processBlock env c2 srcPeerID (Height (Block.Header (tip c2))) (message_Message.Payload m)
             (if length (message_Message.Header m) > 0 then hd (message_Message.Header m) else 255)"
    and "Has (Xxhash env) (blacklisted c2) (Hash (Block.Header (tip c)))"
  using assms by (simp_all add: ProcessBlockFromNetwork_def Let_def Has_Add)

text \<open>
  C5. A block arrives at the tip's height with another hash, it is not blacklisted and
  the fallback succeeds; the synchronizer leaves the blacklist alone. Then the hash of the
  displaced tip is in the blacklist after the call, and from then on a block whose hash is
  blacklisted, the displaced tip in particular, is dropped with nil buffers and a nil
  error and the chain unchanged, whatever the verifier, the executor, the fallback and the
  synchronizer are: none of them is consulted.
\<close>

theorem fallback_blacklists_displaced_tip:
  fixes env :: "('tx, 'db) chain_env" and c c1 c' :: "('tx, 'db) Chain"
  assumes same_height: "Height (Block.Header (message_Message.Payload m)) = Height (Block.Header (tip c))"
    and other_hash: "Hash (Block.Header (message_Message.Payload m)) \<noteq> Hash (Block.Header (tip c))"
    and fresh: "\<not> Has (Xxhash env) (blacklisted c) (Hash (Block.Header (message_Message.Payload m)))"
    and fallback: "tryFallback env c (message_Message.Payload m) = (None, c1)"
    and frame: "\<forall>c0 src h blk kh. blacklisted (snd (processBlock env c0 src h blk kh)) = blacklisted c0"
    and result: "ProcessBlockFromNetwork env c srcPeerID m = (r, c')"
  shows "Has (Xxhash env) (blacklisted c') (Hash (Block.Header (tip c)))
       \<and> (\<forall>(env' :: ('tx, 'db) chain_env) c'' src' m'.
             Xxhash env' = Xxhash env
             \<and> Has (Xxhash env) (blacklisted c'') (Hash (Block.Header (message_Message.Payload m')))
             \<longrightarrow> ProcessBlockFromNetwork env' c'' src' m' = (([], None), c''))
       \<and> (\<forall>(env' :: ('tx, 'db) chain_env) src' m'.
             Xxhash env' = Xxhash env
             \<and> Hash (Block.Header (message_Message.Payload m')) = Hash (Block.Header (tip c))
             \<longrightarrow> ProcessBlockFromNetwork env' c' src' m' = (([], None), c'))"
proof -
  let ?c2 = "c1\<lparr>blacklisted := snd (Add (Xxhash env) (blacklisted c1) (Hash (Block.Header (tip c))))\<rparr>"
  let ?kh = "if length (message_Message.Header m) > 0 then hd (message_Message.Header m) else 255"
  have "ProcessBlockFromNetwork env c srcPeerID m =
          processBlock env ?c2 srcPeerID (Height (Block.Header (tip ?c2))) (message_Message.Payload m) ?kh"
    and handed: "Has (Xxhash env) (blacklisted ?c2) (Hash (Block.Header (tip c)))"
    using fallback_hands_over_blacklisted_tip [OF same_height other_hash fresh fallback refl]
    by simp_all
  with result have "c' = snd (processBlock env ?c2 srcPeerID (Height (Block.Header (tip ?c2)))
                                (message_Message.Payload m) ?kh)"
    by simp
  with frame have "blacklisted c' = blacklisted ?c2"
    by simp
  with handed have has: "Has (Xxhash env) (blacklisted c') (Hash (Block.Header (tip c)))"
    by simp
  have drop: "ProcessBlockFromNetwork env' c'' src' m' = (([], None), c'')"
    if "Xxhash env' = Xxhash env"
      and "Has (Xxhash env) (blacklisted c'') (Hash (Block.Header (message_Message.Payload m')))"
    for env' :: "('tx, 'db) chain_env" and c'' src' m'
    using that blacklisted_block_dropped [of env' c'' m' src'] by simp
  from has drop show ?thesis
    by auto
qed

theorem fallback_blacklists_displaced_tip_witness:
  "ProcessBlockFromNetwork ch_env chain0 ''peer'' (block_msg (mk_block 5 [187] [6] 3)) =
     (([], None), chain_after_fallback)
   \<and> Hash (Block.Header (tip chain0)) = [170]
   \<and> Has (Xxhash ch_env) (blacklisted chain_after_fallback) [170]
   \<and> ProcessBlockFromNetwork ch_env chain_after_fallback ''other peer'' (block_msg (mk_block 5 [170] [5] 3)) =
     (([], None), chain_after_fallback)"
proof -
  let ?m = "block_msg (mk_block 5 [187] [6] 3)"
  have same_height: "Height (Block.Header (message_Message.Payload ?m)) = Height (Block.Header (tip chain0))"
    by (simp add: block_msg_def mk_block_def chain0_def)
  have other_hash: "Hash (Block.Header (message_Message.Payload ?m)) \<noteq> Hash (Block.Header (tip chain0))"
    by (simp add: block_msg_def mk_block_def chain0_def)
  have fresh: "\<not> Has (Xxhash ch_env) (blacklisted chain0) (Hash (Block.Header (message_Message.Payload ?m)))"
    by (simp add: Has_def HasAt_def chain0_def NewTmpMap_def)
  have fallback: "tryFallback ch_env chain0 (message_Message.Payload ?m) =
                    (None, chain0\<lparr>tip := mk_block 5 [187] [6] 3\<rparr>)"
    by (simp add: ch_env_def block_msg_def)
  have frame: "\<forall>c0 src h blk kh. blacklisted (snd (processBlock ch_env c0 src h blk kh)) = blacklisted c0"
    by (simp add: ch_env_def)
  have result: "ProcessBlockFromNetwork ch_env chain0 ''peer'' ?m = (([], None), chain_after_fallback)"
    by (simp add: ProcessBlockFromNetwork_def Let_def Has_def HasAt_def Add_def ch_env_def chain0_def
          NewTmpMap_def block_msg_def mk_block_def chain_after_fallback_def)
  have tiphash: "Hash (Block.Header (tip chain0)) = [170]"
    by (simp add: chain0_def mk_block_def)
  have again: "Hash (Block.Header (message_Message.Payload (block_msg (mk_block 5 [170] [5] 3)))) = [170]"
    by (simp add: block_msg_def mk_block_def)
  from fallback_blacklists_displaced_tip [OF same_height other_hash fresh fallback frame result]
       result tiphash again
  show ?thesis
    by simp
qed

text \<open>
  C10. A block that is not blacklisted and whose height is below the tip's is answered
  with nil buffers and a nil error, and the whole chain (tip, provisioners, blacklist,
  block store, highest height seen) is unchanged.
\<close>

theorem old_block_dropped_unchanged:
  assumes "\<not> Has (Xxhash env) (blacklisted c) (Hash (Block.Header (message_Message.Payload m)))"
    and "Height (Block.Header (message_Message.Payload m)) < Height (Block.Header (tip c))"
  shows "ProcessBlockFromNetwork env c srcPeerID m = (([], None), c)"
  using assms by (auto simp: ProcessBlockFromNetwork_def Let_def)

theorem old_block_dropped_unchanged_witness:
  "\<not> Has (Xxhash ch_env) (blacklisted chain0) [187]
   \<and> (4 :: 64 word) < 5
   \<and> ProcessBlockFromNetwork ch_env chain0 ''peer'' (block_msg (mk_block 4 [187] [6] 3)) =
       (([], None), chain0)"
proof -
  have fresh: "\<not> Has (Xxhash ch_env) (blacklisted chain0)
                   (Hash (Block.Header (message_Message.Payload (block_msg (mk_block 4 [187] [6] 3)))))"
    by (simp add: Has_def HasAt_def chain0_def NewTmpMap_def)
  have older: "Height (Block.Header (message_Message.Payload (block_msg (mk_block 4 [187] [6] 3))))
                 < Height (Block.Header (tip chain0))"
    by (simp add: block_msg_def mk_block_def chain0_def)
  from old_block_dropped_unchanged [OF fresh older, of "''peer''"] fresh show ?thesis
    by (simp add: block_msg_def mk_block_def)
qed

subsection \<open>In-memory block store\<close>

lemma storeTxs_other_tables:
  assumes "storeTxs env blockHash i txs bt = (r, bt')"
    and "j \<noteq> txsInd" and "j \<noteq> txHashInd"
  shows "bt' j = bt j"
  using assms
proof (induction txs arbitrary: i bt)
  case Nil
  then show ?case by simp
next
  case (Cons tx txs)
  show ?case
  proof (cases "CalculateHash env tx")
    case (Inl err)
    with Cons.prems show ?thesis by simp
  next
    case (Inr txID)
    show ?thesis
    proof (cases "length txID = 0")
      case True
      with Inr Cons.prems show ?thesis by simp
    next
      case False
      show ?thesis
      proof (cases "EncodeBlockTx env tx (of_nat i)")
        case (Inl err)
        with Inr False Cons.prems show ?thesis by simp
      next
        case (Inr data)
        with \<open>CalculateHash env tx = Inr txID\<close> False Cons.prems
        have "storeTxs env blockHash (Suc i) txs
                (bt(txsInd := fmupd (toKey env txID) data (bt txsInd),
                    txHashInd := fmupd (toKey env txID) blockHash (bt txHashInd))) = (r, bt')"
          by simp
        from Cons.IH [OF this Cons.prems(2) Cons.prems(3)] Cons.prems(2) Cons.prems(3)
        show ?thesis by simp
      qed
    qed
  qed
qed

lemma StoreBlock_batch:
  assumes "StoreBlock env t b = Returned (None, t1)"
  shows "\<exists>bt blockBytes heightBytes.
           batch t1 = Some bt
           \<and> writable t1
           \<and> MarshalBlock env b = Inr blockBytes
           \<and> WriteUint64 env (Height (Block.Header b)) = Inr heightBytes
           \<and> fmlookup (bt blocksInd) (toKey env (Hash (Block.Header b))) = Some blockBytes
           \<and> fmlookup (bt heightInd) (toKey env heightBytes) = Some blockBytes
           \<and> fmlookup (bt stateInd) (toKey env (stateKey env)) = Some (Hash (Block.Header b))"
proof -
  from assms have w: "writable t"
    by (auto simp: StoreBlock_def split: if_splits)
  from assms w obtain bt0 where bt0: "batch t = Some bt0"
    by (cases "batch t") (auto simp: StoreBlock_def)
  from assms w bt0 obtain blockBytes where mb: "MarshalBlock env b = Inr blockBytes"
    by (cases "MarshalBlock env b") (auto simp: StoreBlock_def)
  let ?bt1 = "bt0(blocksInd := fmupd (toKey env (Hash (Block.Header b))) blockBytes (bt0 blocksInd))"
  obtain r bt2 where st: "storeTxs env (Hash (Block.Header b)) 0 (Txs b) ?bt1 = (r, bt2)"
    by (cases "storeTxs env (Hash (Block.Header b)) 0 (Txs b) ?bt1")
  from assms w bt0 mb st have r: "r = None"
    by (cases r) (auto simp: StoreBlock_def Let_def)
  from assms w bt0 mb st r obtain heightBytes where
    wu: "WriteUint64 env (Height (Block.Header b)) = Inr heightBytes"
    by (cases "WriteUint64 env (Height (Block.Header b))") (auto simp: StoreBlock_def Let_def)
  let ?bt3 = "bt2(heightInd := fmupd (toKey env heightBytes) blockBytes (bt2 heightInd))"
  let ?bt4 = "?bt3(stateInd := fmupd (toKey env (stateKey env)) (Hash (Block.Header b)) (?bt3 stateInd))"
  from assms w bt0 mb st r wu have t1: "batch t1 = Some ?bt4" "writable t1"
    by (auto simp: StoreBlock_def Let_def split: outcome.splits)
  have "bt2 blocksInd = ?bt1 blocksInd"
    using storeTxs_other_tables [OF st] by simp
  then have "fmlookup (?bt4 blocksInd) (toKey env (Hash (Block.Header b))) = Some blockBytes"
    by simp
  moreover have "fmlookup (?bt4 heightInd) (toKey env heightBytes) = Some blockBytes"
    by simp
  moreover have "fmlookup (?bt4 stateInd) (toKey env (stateKey env)) = Some (Hash (Block.Header b))"
    by simp
  ultimately show ?thesis
    using t1 mb wu by blast
qed

text \<open>
  C8. A block is stored by \<^verbatim>\<open>StoreBlock\<close> and the batch committed, both without
  error; the block's hash is not empty (it is a 32-byte digest) and the block codec gives
  the header back. Then every transaction on the store reads the block's height as the
  current height, and the block's hash as the hash at that height.
\<close>

theorem stored_block_is_current:
  assumes store: "StoreBlock env t b = Returned (None, t1)"
    and commit: "Commit t1 = Returned (None, t2)"
    and same_db: "transaction.db t' = transaction.db t2"
    and hash: "Hash (Block.Header b) \<noteq> []"
    and roundtrip: "\<forall>blockBytes. MarshalBlock env b = Inr blockBytes \<longrightarrow>
                      (\<exists>b'. UnmarshalBlock env blockBytes = Inr b' \<and> Block.Header b' = Block.Header b)"
  shows "FetchCurrentHeight env t' = Inr (Height (Block.Header b))
       \<and> FetchBlockHashByHeight env t' (Height (Block.Header b)) = Inr (Hash (Block.Header b))"
proof -
  from StoreBlock_batch [OF store] obtain bt blockBytes heightBytes where
    bt: "batch t1 = Some bt" and w: "writable t1"
    and mb: "MarshalBlock env b = Inr blockBytes"
    and wu: "WriteUint64 env (Height (Block.Header b)) = Inr heightBytes"
    and blk: "fmlookup (bt blocksInd) (toKey env (Hash (Block.Header b))) = Some blockBytes"
    and hgt: "fmlookup (bt heightInd) (toKey env heightBytes) = Some blockBytes"
    and st: "fmlookup (bt stateInd) (toKey env (stateKey env)) = Some (Hash (Block.Header b))"
    by blast
  from commit bt w have sto: "storage (transaction.db t') = (\<lambda>i. storage (transaction.db t1) i ++\<^sub>f bt i)"
    by (auto simp: Commit_def same_db)
  from roundtrip mb obtain b' where
    um: "UnmarshalBlock env blockBytes = Inr b'" and hd: "Block.Header b' = Block.Header b"
    by blast
  have s1: "fmlookup (storage (transaction.db t') blocksInd) (toKey env (Hash (Block.Header b))) = Some blockBytes"
    using blk by (simp add: sto fmlookup_dom_iff)
  have s2: "fmlookup (storage (transaction.db t') heightInd) (toKey env heightBytes) = Some blockBytes"
    using hgt by (simp add: sto fmlookup_dom_iff)
  have s3: "fmlookup (storage (transaction.db t') stateInd) (toKey env (stateKey env)) = Some (Hash (Block.Header b))"
    using st by (simp add: sto fmlookup_dom_iff)
  have "FetchState env t' = Inr (Hash (Block.Header b))"
    using s3 hash by (simp add: FetchState_def)
  moreover have "FetchBlockHeader env t' (Hash (Block.Header b)) = Inr (Block.Header b)"
    using s1 um hd by (simp add: FetchBlockHeader_def)
  ultimately have cur: "FetchCurrentHeight env t' = Inr (Height (Block.Header b))"
    by (simp add: FetchCurrentHeight_def)
  have "FetchBlockHashByHeight env t' (Height (Block.Header b)) = Inr (Hash (Block.Header b))"
    using s2 wu um hd by (simp add: FetchBlockHashByHeight_def)
  with cur show ?thesis by simp
qed

theorem stored_block_is_current_witness:
  "StoreBlock lite_env0 lite_t0 (mk_block 7 [187] [6] 3) = Returned (None, lite_t1)
   \<and> Commit lite_t1 = Returned (None, lite_t2)
   \<and> FetchCurrentHeight lite_env0 lite_t2 = Inr 7
   \<and> FetchBlockHashByHeight lite_env0 lite_t2 7 = Inr [187]"
proof -
  have store: "StoreBlock lite_env0 lite_t0 (mk_block 7 [187] [6] 3) = Returned (None, lite_t1)"
    by (simp add: StoreBlock_def lite_env0_def lite_t0_def lite_t1_def mk_block_def lite_marshal_def
          removeExpired_def upt_rec Let_def fun_upd_twist fun_upd_idem_iff)
  have commit: "Commit lite_t1 = Returned (None, lite_t2)"
    by (simp add: Commit_def lite_t0_def lite_t1_def lite_t2_def fun_eq_iff)
  have hash: "Hash (Block.Header (mk_block 7 [187] [6] 3)) \<noteq> []"
    by (simp add: mk_block_def)
  have roundtrip: "\<forall>blockBytes. MarshalBlock lite_env0 (mk_block 7 [187] [6] 3) = Inr blockBytes \<longrightarrow>
                     (\<exists>b'. UnmarshalBlock lite_env0 blockBytes = Inr b'
                           \<and> Block.Header b' = Block.Header (mk_block 7 [187] [6] 3))"
    by (simp add: lite_env0_def lite_marshal_def lite_unmarshal_def mk_block_def)
  from stored_block_is_current [OF store commit refl hash roundtrip] store commit
  show ?thesis
    by (simp add: mk_block_def)
qed

end
